theory Spec2Isabelle
  imports Complex_Main "HOL-Library.Multiset" "HOL-Library.AList"
begin

section \<open>JavaScript primitives the components rely on\<close>

subsection \<open>Numbers\<close>

text \<open>
  A JavaScript \<open>number\<close> is an IEEE double. Finite doubles are modelled by the real they
  denote; the three special values are kept, because \<open>Math.min\<close> and \<open>Math.max\<close> treat them
  specially. \<open>Math.min\<close> and \<open>Math.max\<close> return one of their arguments, so no rounding
  takes place in them.
\<close>

datatype jsnum = NaN | NegInf | Fin real | PosInf

fun js_lt :: "jsnum \<Rightarrow> jsnum \<Rightarrow> bool" where
  "js_lt NaN _ = False"
| "js_lt _ NaN = False"
| "js_lt PosInf _ = False"
| "js_lt _ NegInf = False"
| "js_lt NegInf _ = True"
| "js_lt _ PosInf = True"
| "js_lt (Fin x) (Fin y) = (x < y)"

definition Math_max :: "jsnum \<Rightarrow> jsnum \<Rightarrow> jsnum" where
  "Math_max a b = (if a = NaN \<or> b = NaN then NaN else if js_lt a b then b else a)"

definition Math_min :: "jsnum \<Rightarrow> jsnum \<Rightarrow> jsnum" where
  "Math_min a b = (if a = NaN \<or> b = NaN then NaN else if js_lt b a then b else a)"

fun js_neg :: "jsnum \<Rightarrow> jsnum" where
  "js_neg NaN = NaN"
| "js_neg NegInf = PosInf"
| "js_neg (Fin x) = Fin (- x)"
| "js_neg PosInf = NegInf"

fun js_add :: "jsnum \<Rightarrow> jsnum \<Rightarrow> jsnum" where
  "js_add NaN _ = NaN"
| "js_add _ NaN = NaN"
| "js_add (Fin x) (Fin y) = Fin (x + y)"
| "js_add PosInf NegInf = NaN"
| "js_add NegInf PosInf = NaN"
| "js_add PosInf _ = PosInf"
| "js_add _ PosInf = PosInf"
| "js_add NegInf _ = NegInf"
| "js_add _ NegInf = NegInf"

definition js_sub :: "jsnum \<Rightarrow> jsnum \<Rightarrow> jsnum" where
  "js_sub a b = js_add a (js_neg b)"

text \<open>\<open>Math.ceil(n / 2)\<close> for an array length \<open>n\<close>.\<close>

definition Math_ceil_half :: "nat \<Rightarrow> nat" where
  "Math_ceil_half n = nat \<lceil>real n / 2\<rceil>"

subsection \<open>Optional values\<close>

text \<open>\<open>x ?? d\<close>: \<open>None\<close> stands for \<open>undefined\<close> and \<open>null\<close>.\<close>

definition nullish :: "'a option \<Rightarrow> 'a \<Rightarrow> 'a" where
  "nullish x d = (case x of None \<Rightarrow> d | Some v \<Rightarrow> v)"

text \<open>\<open>o?.p\<close> on an optional object whose properties are all optional.\<close>

definition opt_prop :: "(string \<rightharpoonup> 'a) option \<Rightarrow> string \<Rightarrow> 'a option" where
  "opt_prop obj p = (case obj of None \<Rightarrow> None | Some m \<Rightarrow> m p)"

text \<open>\<open>s || d\<close> on an optional string: \<open>undefined\<close> and the empty string are falsy.\<close>

definition str_or :: "string option \<Rightarrow> string \<Rightarrow> string" where
  "str_or s d = (case s of None \<Rightarrow> d | Some v \<Rightarrow> if v = [] then d else v)"

subsection \<open>Strings\<close>

text \<open>
  Strings are lists of characters. \<open>isWhiteSpace\<close> holds of the ASCII members of
  ECMAScript's WhiteSpace and LineTerminator classes (TAB, LF, VT, FF, CR, SP), which
  \<open>String.prototype.trim\<close> strips from both ends.
\<close>

definition isWhiteSpace :: "char \<Rightarrow> bool" where
  "isWhiteSpace c = (of_char c \<in> {9, 10, 11, 12, 13, 32 :: nat})"

definition trim :: "string \<Rightarrow> string" where
  "trim s = rev (dropWhile isWhiteSpace (rev (dropWhile isWhiteSpace s)))"

text \<open>\<open>s?.trim()\<close>\<close>

definition opt_trim :: "string option \<Rightarrow> string option" where
  "opt_trim s = map_option trim s"

subsection \<open>Arrays\<close>

text \<open>\<open>xs.slice(0, n)\<close> and \<open>xs.slice(n)\<close> for \<open>0 \<le> n\<close>.\<close>

definition slice_to :: "nat \<Rightarrow> 'a list \<Rightarrow> 'a list" where
  "slice_to n xs = take n xs"

definition slice_from :: "nat \<Rightarrow> 'a list \<Rightarrow> 'a list" where
  "slice_from n xs = drop n xs"

section \<open>The additional-section data\<close>

text \<open>
  \<open>AdditionalSectionKey\<close> is a union of five string literals; at run time a key is a
  string, and an order list read from stored data may hold any string.
\<close>

type_synonym AdditionalSectionKey = string

text \<open>
  Modelled from the spec: \<open>DEFAULT_ADDITIONAL_SECTION_ORDER\<close> is declared in
  \<open>components/dashboard/resume-component\<close>, which is not among the sources; the spec gives
  its value as the fixed default order.
\<close>

definition DEFAULT_ADDITIONAL_SECTION_ORDER :: "AdditionalSectionKey list" where
  "DEFAULT_ADDITIONAL_SECTION_ORDER =
     [''technicalSkills'', ''languages'', ''certificationsTraining'', ''awards'', ''creativeTools'']"

text \<open>
  Modelled from the spec: the interface \<open>AdditionalInfo\<close> is declared in
  \<open>components/dashboard/resume-component\<close>, which is not among the sources. Its nine fields
  are the ones the spec lists and the components read. TypeScript's types are structural and
  erased, so an object may carry further properties; \<open>otherProps\<close> holds the array-valued
  ones (a category written by another version of the application, for instance).
\<close>

record AdditionalInfo =
  technicalSkills :: "string list option"
  languages :: "string list option"
  certificationsTraining :: "string list option"
  awards :: "string list option"
  creativeTools :: "string list option"
  additionalSectionOrder :: "AdditionalSectionKey list option"
  additionalSubsectionLabels :: "(string \<rightharpoonup> string) option"
  skillsLeftColumnRatio :: "jsnum option"
  skillsColumnGapRem :: "jsnum option"
  otherProps :: "string \<rightharpoonup> string list"

text \<open>
  \<open>additional[key]\<close> as the row builder uses it: the array stored under \<open>key\<close>. \<open>None\<close> is
  \<open>undefined\<close>; it also stands for the three settings that are not arrays, whose \<open>length\<close> is
  \<open>undefined\<close>, so that \<open>items.length > 0\<close> is false for them as it is for \<open>[]\<close>. Members
  inherited from \<open>Object.prototype\<close> are not modelled.
\<close>

definition additional_at :: "AdditionalInfo \<Rightarrow> string \<Rightarrow> string list option" where
  "additional_at additional k =
    (if k = ''technicalSkills'' then technicalSkills additional
     else if k = ''languages'' then languages additional
     else if k = ''certificationsTraining'' then certificationsTraining additional
     else if k = ''awards'' then awards additional
     else if k = ''creativeTools'' then creativeTools additional
     else if k = ''additionalSectionOrder'' then additionalSectionOrder additional
     else if k = ''additionalSubsectionLabels'' \<or> k = ''skillsLeftColumnRatio''
             \<or> k = ''skillsColumnGapRem'' then None
     else otherProps additional k)"

text \<open>
  A row \<open>{ key, label, items }\<close>. The label is read by \<open>labelByKey[key]\<close> from an object with
  five properties, so it is \<open>undefined\<close> (\<open>None\<close>) for any other key.
\<close>

record Row =
  key :: AdditionalSectionKey
  label :: "string option"
  items :: "string list"

text \<open>
  What the block hands to the markup: the two columns, and the numbers of
  \<open>gridTemplateColumns: `${leftRatio}fr ${1 - leftRatio}fr`\<close> and \<open>columnGap: `${gapRem}rem`\<close>.
\<close>

record Block =
  leftRows :: "Row list"
  rightRows :: "Row list"
  leftRatio :: jsnum
  rightFraction :: jsnum
  gapRem :: jsnum

text \<open>
  An object of type \<open>Record<AdditionalSectionKey, string>\<close> (\<open>defaultLabels\<close>,
  \<open>labelByKey\<close>), and its dynamic read \<open>obj[key]\<close>.
\<close>

record KeyLabels =
  k_technicalSkills :: string
  k_languages :: string
  k_certificationsTraining :: string
  k_awards :: string
  k_creativeTools :: string

definition KeyLabels_at :: "KeyLabels \<Rightarrow> AdditionalSectionKey \<Rightarrow> string option" where
  "KeyLabels_at obj k =
    (if k = ''technicalSkills'' then Some (k_technicalSkills obj)
     else if k = ''languages'' then Some (k_languages obj)
     else if k = ''certificationsTraining'' then Some (k_certificationsTraining obj)
     else if k = ''awards'' then Some (k_awards obj)
     else if k = ''creativeTools'' then Some (k_creativeTools obj)
     else None)"

text \<open>\<open>additional.additionalSubsectionLabels?.[p]?.trim()\<close>\<close>

definition override :: "AdditionalInfo \<Rightarrow> string \<Rightarrow> string option" where
  "override additional p = opt_trim (opt_prop (additionalSubsectionLabels additional) p)"

section \<open>The keyword-highlight view\<close>

text \<open>
  \<open>HighlightedResumeView\<close>, the block under "Skills - left bar layout, ordered subsections".
  The translation lookup \<open>t\<close> is a parameter.
\<close>

definition HighlightedResumeView_defaultLabels :: "(string \<Rightarrow> string) \<Rightarrow> KeyLabels" where
  "HighlightedResumeView_defaultLabels t =
    \<lparr>k_technicalSkills = t ''resume.additional.technicalSkills'',
     k_languages = t ''resume.sections.languages'',
     k_certificationsTraining = t ''resume.sections.certifications'',
     k_awards = t ''resume.sections.awards'',
     k_creativeTools = t ''resume.sections.creativeTools''\<rparr>"

definition HighlightedResumeView_labelByKey :: "(string \<Rightarrow> string) \<Rightarrow> AdditionalInfo \<Rightarrow> KeyLabels" where
  "HighlightedResumeView_labelByKey t additional =
    (let defaultLabels = HighlightedResumeView_defaultLabels t in
     \<lparr>k_technicalSkills =
        str_or (override additional ''technicalSkills'') (k_technicalSkills defaultLabels),
      k_languages = str_or (override additional ''languages'') (k_languages defaultLabels),
      k_certificationsTraining =
        str_or (override additional ''certificationsTraining'') (k_certificationsTraining defaultLabels),
      k_awards = str_or (override additional ''awards'') (k_awards defaultLabels),
      k_creativeTools =
        str_or (override additional ''creativeTools'') (k_creativeTools defaultLabels)\<rparr>)"

definition HighlightedResumeView_order :: "AdditionalInfo \<Rightarrow> AdditionalSectionKey list" where
  "HighlightedResumeView_order additional =
     nullish (additionalSectionOrder additional) DEFAULT_ADDITIONAL_SECTION_ORDER"

definition HighlightedResumeView_rows :: "(string \<Rightarrow> string) \<Rightarrow> AdditionalInfo \<Rightarrow> Row list" where
  "HighlightedResumeView_rows t additional =
    (let order = HighlightedResumeView_order additional;
         labelByKey = HighlightedResumeView_labelByKey t additional
     in List.map_filter
          (\<lambda>k. let its = nullish (additional_at additional k) []
               in if length its > 0
                  then Some \<lparr>key = k, label = KeyLabels_at labelByKey k, items = its\<rparr>
                  else None)
          order)"

definition HighlightedResumeView_block ::
  "(string \<Rightarrow> string) \<Rightarrow> AdditionalInfo option \<Rightarrow> Block option"
where
  "HighlightedResumeView_block t resumeData_additional =
    (case resumeData_additional of
       None \<Rightarrow> None
     | Some additional \<Rightarrow>
        (let rows = HighlightedResumeView_rows t additional in
         if length rows = 0 then None
         else
           (let mid = Math_ceil_half (length rows);
                leftRows = slice_to mid rows;
                rightRows = slice_from mid rows;
                leftRatio = Math_min (Fin 0.75)
                  (Math_max (Fin 0.25) (nullish (skillsLeftColumnRatio additional) (Fin 0.5)));
                gapRem = Math_min (Fin 2.5)
                  (Math_max (Fin 0.5) (nullish (skillsColumnGapRem additional) (Fin 1.25)))
            in Some \<lparr>leftRows = leftRows, rightRows = rightRows, leftRatio = leftRatio,
                      rightFraction = js_sub (Fin 1) leftRatio, gapRem = gapRem\<rparr>)))"

section \<open>The modern two-column template\<close>

text \<open>
  \<open>headingFallbacks\<close> of \<open>ResumeModernTwoColumn\<close>: each heading of the optional
  \<open>sectionHeadings\<close> prop, or its English default.
\<close>

record ResumeSectionHeadings =
  h_summary :: string
  h_experience :: string
  h_education :: string
  h_projects :: string
  h_certifications :: string
  h_skills :: string
  h_languages :: string
  h_awards :: string
  h_creativeTools :: string
  h_links :: string

definition headingFallbacks :: "(string \<rightharpoonup> string) option \<Rightarrow> ResumeSectionHeadings" where
  "headingFallbacks sectionHeadings =
    \<lparr>h_summary = nullish (opt_prop sectionHeadings ''summary'') ''Summary'',
     h_experience = nullish (opt_prop sectionHeadings ''experience'') ''Experience'',
     h_education = nullish (opt_prop sectionHeadings ''education'') ''Education'',
     h_projects = nullish (opt_prop sectionHeadings ''projects'') ''Projects'',
     h_certifications =
       nullish (opt_prop sectionHeadings ''certifications'') ''Training & Certifications'',
     h_skills = nullish (opt_prop sectionHeadings ''skills'') ''Skills'',
     h_languages = nullish (opt_prop sectionHeadings ''languages'') ''Languages'',
     h_awards = nullish (opt_prop sectionHeadings ''awards'') ''Awards'',
     h_creativeTools = nullish (opt_prop sectionHeadings ''creativeTools'') ''Creative Tools'',
     h_links = nullish (opt_prop sectionHeadings ''links'') ''Links''\<rparr>"

definition ResumeModernTwoColumn_labelByKey ::
  "(string \<rightharpoonup> string) option \<Rightarrow> AdditionalInfo \<Rightarrow> KeyLabels"
where
  "ResumeModernTwoColumn_labelByKey sectionHeadings additional =
    \<lparr>k_technicalSkills =
       str_or (override additional ''technicalSkills'') (h_skills (headingFallbacks sectionHeadings)),
     k_languages =
       str_or (override additional ''languages'') (h_languages (headingFallbacks sectionHeadings)),
     k_certificationsTraining =
       str_or (override additional ''certificationsTraining'')
         (h_certifications (headingFallbacks sectionHeadings)),
     k_awards = str_or (override additional ''awards'') (h_awards (headingFallbacks sectionHeadings)),
     k_creativeTools =
       str_or (override additional ''creativeTools'')
         (h_creativeTools (headingFallbacks sectionHeadings))\<rparr>"

definition ResumeModernTwoColumn_order :: "AdditionalInfo \<Rightarrow> AdditionalSectionKey list" where
  "ResumeModernTwoColumn_order additional =
     nullish (additionalSectionOrder additional) DEFAULT_ADDITIONAL_SECTION_ORDER"

definition ResumeModernTwoColumn_rows ::
  "(string \<rightharpoonup> string) option \<Rightarrow> AdditionalInfo \<Rightarrow> Row list"
where
  "ResumeModernTwoColumn_rows sectionHeadings additional =
    (let order = ResumeModernTwoColumn_order additional;
         labelByKey = ResumeModernTwoColumn_labelByKey sectionHeadings additional
     in List.map_filter
          (\<lambda>k. let its = nullish (additional_at additional k) []
               in if length its > 0
                  then Some \<lparr>key = k, label = KeyLabels_at labelByKey k, items = its\<rparr>
                  else None)
          order)"

text \<open>
  The sidebar block. \<open>isSectionVisible\<close> reads \<open>getSectionMeta(data)\<close>, which is not among
  the sources; the value of \<open>isSectionVisible('additional')\<close> is the parameter \<open>visible\<close>.
\<close>

definition ResumeModernTwoColumn_block ::
  "bool \<Rightarrow> (string \<rightharpoonup> string) option \<Rightarrow> AdditionalInfo option \<Rightarrow> Block option"
where
  "ResumeModernTwoColumn_block visible sectionHeadings data_additional =
    (if \<not> visible then None
     else case data_additional of
       None \<Rightarrow> None
     | Some additional \<Rightarrow>
        (let rows = ResumeModernTwoColumn_rows sectionHeadings additional in
         if length rows = 0 then None
         else
           (let mid = Math_ceil_half (length rows);
                leftRows = slice_to mid rows;
                rightRows = slice_from mid rows;
                leftRatio = Math_min (Fin 0.75)
                  (Math_max (Fin 0.25) (nullish (skillsLeftColumnRatio additional) (Fin 0.5)));
                gapRem = Math_min (Fin 2.5)
                  (Math_max (Fin 0.5) (nullish (skillsColumnGapRem additional) (Fin 1.25)))
            in Some \<lparr>leftRows = leftRows, rightRows = rightRows, leftRatio = leftRatio,
                      rightFraction = js_sub (Fin 1) leftRatio, gapRem = gapRem\<rparr>)))"

text \<open>
  The dedicated section "Certifications/Training - Main column" of the same template: the
  items it lists, or \<open>None\<close> when the section is not rendered.
\<close>

definition ResumeModernTwoColumn_certifications ::
  "bool \<Rightarrow> AdditionalInfo option \<Rightarrow> string list option"
where
  "ResumeModernTwoColumn_certifications visible data_additional =
    (if \<not> visible then None
     else case data_additional of
       None \<Rightarrow> None
     | Some additional \<Rightarrow>
        (case certificationsTraining additional of
           None \<Rightarrow> None
         | Some certs \<Rightarrow> if length certs > 0 then Some certs else None))"

section \<open>The single-column templates\<close>

text \<open>
  \<open>AdditionalSection\<close> of \<open>ResumeSingleColumn\<close>. \<open>mergedLabels\<close> completes the optional
  \<open>labels\<close> prop with English defaults.
\<close>

record AdditionalSectionLabels =
  l_technicalSkills :: string
  l_languages :: string
  l_certifications :: string
  l_awards :: string
  l_creativeTools :: string

definition mergedLabels :: "(string \<rightharpoonup> string) option \<Rightarrow> AdditionalSectionLabels" where
  "mergedLabels labels =
    \<lparr>l_technicalSkills = nullish (opt_prop labels ''technicalSkills'') ''Technical Skills:'',
     l_languages = nullish (opt_prop labels ''languages'') ''Languages:'',
     l_certifications = nullish (opt_prop labels ''certifications'') ''Certifications:'',
     l_awards = nullish (opt_prop labels ''awards'') ''Awards:'',
     l_creativeTools = nullish (opt_prop labels ''creativeTools'') ''Creative Tools:''\<rparr>"

definition AdditionalSection_labelByKey ::
  "(string \<rightharpoonup> string) option \<Rightarrow> AdditionalInfo \<Rightarrow> KeyLabels"
where
  "AdditionalSection_labelByKey labels additional =
    \<lparr>k_technicalSkills =
       str_or (override additional ''technicalSkills'') (l_technicalSkills (mergedLabels labels)),
     k_languages = str_or (override additional ''languages'') (l_languages (mergedLabels labels)),
     k_certificationsTraining =
       str_or (override additional ''certificationsTraining'') (l_certifications (mergedLabels labels)),
     k_awards = str_or (override additional ''awards'') (l_awards (mergedLabels labels)),
     k_creativeTools =
       str_or (override additional ''creativeTools'') (l_creativeTools (mergedLabels labels))\<rparr>"

definition AdditionalSection_order :: "AdditionalInfo \<Rightarrow> AdditionalSectionKey list" where
  "AdditionalSection_order additional =
     nullish (additionalSectionOrder additional) DEFAULT_ADDITIONAL_SECTION_ORDER"

definition AdditionalSection_rows ::
  "(string \<rightharpoonup> string) option \<Rightarrow> AdditionalInfo \<Rightarrow> Row list"
where
  "AdditionalSection_rows labels additional =
    (let order = AdditionalSection_order additional;
         labelByKey = AdditionalSection_labelByKey labels additional
     in List.map_filter
          (\<lambda>k. let its = nullish (additional_at additional k) []
               in if length its > 0
                  then Some \<lparr>key = k, label = KeyLabels_at labelByKey k, items = its\<rparr>
                  else None)
          order)"

definition AdditionalSection ::
  "(string \<rightharpoonup> string) option \<Rightarrow> AdditionalInfo option \<Rightarrow> Block option"
where
  "AdditionalSection labels additional_prop =
    (case additional_prop of
       None \<Rightarrow> None
     | Some additional \<Rightarrow>
        (let rows = AdditionalSection_rows labels additional in
         if length rows = 0 then None
         else
           (let mid = Math_ceil_half (length rows);
                leftRows = slice_to mid rows;
                rightRows = slice_from mid rows;
                leftRatio = Math_min (Fin 0.75)
                  (Math_max (Fin 0.25) (nullish (skillsLeftColumnRatio additional) (Fin 0.5)));
                gapRem = Math_min (Fin 2.5)
                  (Math_max (Fin 0.5) (nullish (skillsColumnGapRem additional) (Fin 1.25)))
            in Some \<lparr>leftRows = leftRows, rightRows = rightRows, leftRatio = leftRatio,
                      rightFraction = js_sub (Fin 1) leftRatio, gapRem = gapRem\<rparr>)))"

text \<open>
  \<open>ResumeModern\<close> carries its own copy of \<open>AdditionalSection\<close>, with the same text.
\<close>

definition ResumeModern_labelByKey ::
  "(string \<rightharpoonup> string) option \<Rightarrow> AdditionalInfo \<Rightarrow> KeyLabels"
where
  "ResumeModern_labelByKey labels additional =
    \<lparr>k_technicalSkills =
       str_or (override additional ''technicalSkills'') (l_technicalSkills (mergedLabels labels)),
     k_languages = str_or (override additional ''languages'') (l_languages (mergedLabels labels)),
     k_certificationsTraining =
       str_or (override additional ''certificationsTraining'') (l_certifications (mergedLabels labels)),
     k_awards = str_or (override additional ''awards'') (l_awards (mergedLabels labels)),
     k_creativeTools =
       str_or (override additional ''creativeTools'') (l_creativeTools (mergedLabels labels))\<rparr>"

definition ResumeModern_order :: "AdditionalInfo \<Rightarrow> AdditionalSectionKey list" where
  "ResumeModern_order additional =
     nullish (additionalSectionOrder additional) DEFAULT_ADDITIONAL_SECTION_ORDER"

definition ResumeModern_rows ::
  "(string \<rightharpoonup> string) option \<Rightarrow> AdditionalInfo \<Rightarrow> Row list"
where
  "ResumeModern_rows labels additional =
    (let order = ResumeModern_order additional;
         labelByKey = ResumeModern_labelByKey labels additional
     in List.map_filter
          (\<lambda>k. let its = nullish (additional_at additional k) []
               in if length its > 0
                  then Some \<lparr>key = k, label = KeyLabels_at labelByKey k, items = its\<rparr>
                  else None)
          order)"

definition ResumeModern_AdditionalSection ::
  "(string \<rightharpoonup> string) option \<Rightarrow> AdditionalInfo option \<Rightarrow> Block option"
where
  "ResumeModern_AdditionalSection labels additional_prop =
    (case additional_prop of
       None \<Rightarrow> None
     | Some additional \<Rightarrow>
        (let rows = ResumeModern_rows labels additional in
         if length rows = 0 then None
         else
           (let mid = Math_ceil_half (length rows);
                leftRows = slice_to mid rows;
                rightRows = slice_from mid rows;
                leftRatio = Math_min (Fin 0.75)
                  (Math_max (Fin 0.25) (nullish (skillsLeftColumnRatio additional) (Fin 0.5)));
                gapRem = Math_min (Fin 2.5)
                  (Math_max (Fin 0.5) (nullish (skillsColumnGapRem additional) (Fin 1.25)))
            in Some \<lparr>leftRows = leftRows, rightRows = rightRows, leftRatio = leftRatio,
                      rightFraction = js_sub (Fin 1) leftRatio, gapRem = gapRem\<rparr>)))"

section \<open>The keyword segmenter\<close>

text \<open>
  Modelled from the spec: \<open>segmentTextByKeywords\<close> is imported from
  \<open>lib/utils/keyword-matcher\<close>, which is not among the sources; only its call in
  \<open>HighlightedText\<close> is. The definitions below follow section 4.1 of the spec: a
  left-to-right scan that, at each position standing on a word boundary, takes the longest
  keyword matching there without regard to case and ending on a word boundary, emits it as a
  matched segment and resumes right after it; text between matches is emitted unmatched.
  The keyword set is given by a list of its members.
\<close>

record Segment =
  seg_text :: string
  isMatch :: bool

definition isAlnum :: "char \<Rightarrow> bool" where
  "isAlnum c =
    (let n = (of_char c :: nat)
     in (48 \<le> n \<and> n \<le> 57) \<or> (65 \<le> n \<and> n \<le> 90) \<or> (97 \<le> n \<and> n \<le> 122))"

definition toLower :: "char \<Rightarrow> char" where
  "toLower c =
    (let n = (of_char c :: nat) in if 65 \<le> n \<and> n \<le> 90 then char_of (n + 32) else c)"

text \<open>
  A position between \<open>p\<close> and \<open>q\<close> (\<open>None\<close> at either end of the text) is a word
  boundary unless it lies inside an alphanumeric run.
\<close>

definition boundary :: "char option \<Rightarrow> char option \<Rightarrow> bool" where
  "boundary p q =
    (case (p, q) of (Some a, Some b) \<Rightarrow> \<not> (isAlnum a \<and> isAlnum b) | _ \<Rightarrow> True)"

definition first_char :: "string \<Rightarrow> char option" where
  "first_char s = (case s of [] \<Rightarrow> None | c # _ \<Rightarrow> Some c)"

definition last_char :: "string \<Rightarrow> char option" where
  "last_char s = first_char (rev s)"

text \<open>Keyword \<open>kw\<close> matches at the head of \<open>rest\<close>, the character before being \<open>prev\<close>.\<close>

definition matchesAt :: "char option \<Rightarrow> string \<Rightarrow> string \<Rightarrow> bool" where
  "matchesAt prev rest kw =
    (kw \<noteq> [] \<and> length kw \<le> length rest
     \<and> map toLower (take (length kw) rest) = map toLower kw
     \<and> boundary prev (first_char rest)
     \<and> boundary (last_char (take (length kw) rest)) (first_char (drop (length kw) rest)))"

text \<open>The length of the longest keyword matching here; 0 when none does.\<close>

definition longestMatch :: "string list \<Rightarrow> char option \<Rightarrow> string \<Rightarrow> nat" where
  "longestMatch kws prev rest =
     fold max (map length (filter (matchesAt prev rest) kws)) 0"

definition flush :: "string \<Rightarrow> Segment list" where
  "flush pending = (if pending = [] then [] else [\<lparr>seg_text = pending, isMatch = False\<rparr>])"

function segment_from :: "string list \<Rightarrow> char option \<Rightarrow> string \<Rightarrow> string \<Rightarrow> Segment list" where
  "segment_from kws prev pending [] = flush pending"
| "segment_from kws prev pending (c # cs) =
    (let n = longestMatch kws prev (c # cs) in
     if n = 0 then segment_from kws (Some c) (pending @ [c]) cs
     else flush pending @ [\<lparr>seg_text = take n (c # cs), isMatch = True\<rparr>]
          @ segment_from kws (last_char (take n (c # cs))) [] (drop n (c # cs)))"
  by pat_completeness auto
termination
  by (relation "measure (\<lambda>(kws, prev, pending, rest). length rest)") auto

definition segmentTextByKeywords :: "string \<Rightarrow> string list \<Rightarrow> Segment list" where
  "segmentTextByKeywords txt kws =
    (if kws = [] \<or> txt = [] then [\<lparr>seg_text = txt, isMatch = False\<rparr>]
     else segment_from kws None [] txt)"

section \<open>The editing forms\<close>

subsection \<open>Objects and arrays in a store\<close>

text \<open>
  The forms receive \<open>data\<close> by reference and answer through \<open>onChange\<close>. Whether they
  write to an object they were given is visible only with references, so the handlers are
  modelled over a store: a list of cells, an address being an index. An object is the list of
  its own properties in insertion order, an array the list of its elements. Allocation appends.
\<close>

datatype val = Undefined | Str string | Num jsnum | Ref nat

datatype cell = Obj "(string \<times> val) list" | Arr "val list"

type_synonym store = "cell list"

definition alloc :: "store \<Rightarrow> cell \<Rightarrow> store \<times> nat" where
  "alloc h c = (h @ [c], length h)"

text \<open>The own properties of the object a value refers to; none for anything else.\<close>

definition props_of :: "store \<Rightarrow> val \<Rightarrow> (string \<times> val) list" where
  "props_of h v =
    (case v of
       Ref a \<Rightarrow> (if a < length h then (case h ! a of Obj ps \<Rightarrow> ps | Arr _ \<Rightarrow> []) else [])
     | _ \<Rightarrow> [])"

text \<open>The elements of the array a value refers to; none for anything else.\<close>

definition elems_of :: "store \<Rightarrow> val \<Rightarrow> val list" where
  "elems_of h v =
    (case v of
       Ref a \<Rightarrow> (if a < length h then (case h ! a of Arr xs \<Rightarrow> xs | Obj _ \<Rightarrow> []) else [])
     | _ \<Rightarrow> [])"

text \<open>\<open>obj[p]\<close>\<close>

definition get_prop :: "store \<Rightarrow> val \<Rightarrow> string \<Rightarrow> val" where
  "get_prop h v p = (case map_of (props_of h v) p of None \<Rightarrow> Undefined | Some x \<Rightarrow> x)"

text \<open>\<open>v ?? d\<close> on values.\<close>

definition val_nullish :: "val \<Rightarrow> val \<Rightarrow> val" where
  "val_nullish v d = (if v = Undefined then d else v)"

text \<open>\<open>xs.indexOf(x)\<close>: the first index holding \<open>x\<close>, or \<open>-1\<close>.\<close>

fun indexOf :: "'a list \<Rightarrow> 'a \<Rightarrow> int" where
  "indexOf [] x = - 1"
| "indexOf (y # ys) x =
    (if y = x then 0 else (let i = indexOf ys x in if i = - 1 then - 1 else i + 1))"

text \<open>
  \<open>xs.splice(start, 1)\<close> and \<open>xs.splice(start, 0, x)\<close> for \<open>0 \<le> start\<close>: the array's new
  elements, and for the first the array of removed elements it returns.
\<close>

definition splice_remove1 :: "nat \<Rightarrow> 'a list \<Rightarrow> 'a list \<times> 'a list" where
  "splice_remove1 start xs = (take start xs @ drop (start + 1) xs, take 1 (drop start xs))"

definition splice_insert :: "nat \<Rightarrow> 'a \<Rightarrow> 'a list \<Rightarrow> 'a list" where
  "splice_insert start x xs = take start xs @ [x] @ drop start xs"

text \<open>\<open>s.split('\n')\<close>\<close>

fun split_lines :: "string \<Rightarrow> string list" where
  "split_lines [] = [[]]"
| "split_lines (c # cs) =
    (if c = CHR 0x0A then [] # split_lines cs
     else (case split_lines cs of [] \<Rightarrow> [[c]] | l # ls \<Rightarrow> (c # l) # ls))"

text \<open>\<open>n / d\<close> for a finite positive constant \<open>d\<close>.\<close>

fun js_div_const :: "jsnum \<Rightarrow> real \<Rightarrow> jsnum" where
  "js_div_const (Fin x) d = Fin (x / d)"
| "js_div_const n d = n"

subsection \<open>AdditionalForm\<close>

text \<open>
  Each handler takes the store and the reference \<open>data\<close> of the form's props, and returns
  the store it leaves and the argument it passes to \<open>onChange\<close>, or \<open>None\<close> when it returns
  without calling \<open>onChange\<close>.
\<close>

definition handleArrayChange :: "store \<Rightarrow> val \<Rightarrow> string \<Rightarrow> string \<Rightarrow> store \<times> val option" where
  "handleArrayChange h data field v =
    (let its = filter (\<lambda>item. trim item \<noteq> []) (split_lines v);
         (h1, items_ref) = alloc h (Arr (map Str its));
         (h2, new_data) = alloc h1 (Obj (AList.update field (Ref items_ref) (props_of h1 data)))
     in (h2, Some (Ref new_data)))"

definition handleSubsectionLabelChange ::
  "store \<Rightarrow> val \<Rightarrow> string \<Rightarrow> string \<Rightarrow> store \<times> val option"
where
  "handleSubsectionLabelChange h data k v =
    (let (h1, next) = alloc h (Obj (props_of h (get_prop h data ''additionalSubsectionLabels'')));
         h2 = (if trim v = []
               then h1[next := Obj (AList.delete k (props_of h1 (Ref next)))]
               else h1[next := Obj (AList.update k (Str v) (props_of h1 (Ref next)))]);
         labels = (if length (map fst (props_of h2 (Ref next))) \<noteq> 0 then Ref next else Undefined);
         (h3, new_data) =
           alloc h2 (Obj (AList.update ''additionalSubsectionLabels'' labels (props_of h2 data)))
     in (h3, Some (Ref new_data)))"

text \<open>
  \<open>order\<close> is bound when the component renders:
  \<open>data.additionalSectionOrder ?? ADDITIONAL_FIELD_KEYS\<close>, the latter being the module's
  array \<open>DEFAULT_ADDITIONAL_SECTION_ORDER\<close>, here at the address \<open>dflt\<close>.
\<close>

definition AdditionalForm_order :: "store \<Rightarrow> nat \<Rightarrow> val \<Rightarrow> val" where
  "AdditionalForm_order h dflt data =
     val_nullish (get_prop h data ''additionalSectionOrder'') (Ref dflt)"

text \<open>
  \<open>handleDragEnd\<close>: \<open>active\<close> is \<open>event.active.id\<close>, \<open>over\<close> is \<open>event.over?.id\<close>
  (\<open>None\<close> when the item is dropped outside every target).
\<close>

definition handleDragEnd ::
  "store \<Rightarrow> nat \<Rightarrow> val \<Rightarrow> string \<Rightarrow> string option \<Rightarrow> store \<times> val option"
where
  "handleDragEnd h dflt data active over =
    (case over of
       None \<Rightarrow> (h, None)
     | Some over_id \<Rightarrow>
        if active = over_id then (h, None)
        else
          (let order = AdditionalForm_order h dflt data;
               oldIndex = indexOf (elems_of h order) (Str active);
               newIndex = indexOf (elems_of h order) (Str over_id)
           in if oldIndex = - 1 \<or> newIndex = - 1 then (h, None)
              else
                (let (h1, newOrder) = alloc h (Arr (elems_of h order));
                     (xs1, removed_arr) = splice_remove1 (nat oldIndex) (elems_of h1 (Ref newOrder));
                     h2 = h1[newOrder := Arr xs1];
                     removed = (case removed_arr of [] \<Rightarrow> Undefined | r # _ \<Rightarrow> r);
                     h3 = h2[newOrder := Arr (splice_insert (nat newIndex) removed
                                                (elems_of h2 (Ref newOrder)))];
                     (h4, new_data) =
                       alloc h3 (Obj (AList.update ''additionalSectionOrder'' (Ref newOrder)
                                        (props_of h3 data)))
                 in (h4, Some (Ref new_data)))))"

text \<open>
  The two sliders; \<open>n\<close> is \<open>Number(e.target.value)\<close>.
\<close>

definition handleColumnRatioChange :: "store \<Rightarrow> val \<Rightarrow> jsnum \<Rightarrow> store \<times> val option" where
  "handleColumnRatioChange h data n =
    (let v = js_div_const n 100;
         (h1, new_data) =
           alloc h (Obj (AList.update ''skillsLeftColumnRatio'' (Num v) (props_of h data)))
     in (h1, Some (Ref new_data)))"

definition handleColumnGapChange :: "store \<Rightarrow> val \<Rightarrow> jsnum \<Rightarrow> store \<times> val option" where
  "handleColumnGapChange h data n =
    (let v = n;
         (h1, new_data) =
           alloc h (Obj (AList.update ''skillsColumnGapRem'' (Num v) (props_of h data)))
     in (h1, Some (Ref new_data)))"

subsection \<open>PersonalInfoForm\<close>

definition handleChange :: "store \<Rightarrow> val \<Rightarrow> string \<Rightarrow> string \<Rightarrow> store \<times> val option" where
  "handleChange h data field v =
    (let (h1, new_data) = alloc h (Obj (AList.update field (Str v) (props_of h data)))
     in (h1, Some (Ref new_data)))"

section \<open>The four views side by side\<close>

text \<open>
  The default label each component falls back to, by key. The keyword-highlight view builds
  this table itself (\<open>defaultLabels\<close>); the templates read theirs from \<open>headingFallbacks\<close>
  and \<open>mergedLabels\<close>.
\<close>

definition ResumeModernTwoColumn_defaultLabels :: "(string \<rightharpoonup> string) option \<Rightarrow> KeyLabels" where
  "ResumeModernTwoColumn_defaultLabels sectionHeadings =
    \<lparr>k_technicalSkills = h_skills (headingFallbacks sectionHeadings),
     k_languages = h_languages (headingFallbacks sectionHeadings),
     k_certificationsTraining = h_certifications (headingFallbacks sectionHeadings),
     k_awards = h_awards (headingFallbacks sectionHeadings),
     k_creativeTools = h_creativeTools (headingFallbacks sectionHeadings)\<rparr>"

definition AdditionalSection_defaultLabels :: "(string \<rightharpoonup> string) option \<Rightarrow> KeyLabels" where
  "AdditionalSection_defaultLabels labels =
    \<lparr>k_technicalSkills = l_technicalSkills (mergedLabels labels),
     k_languages = l_languages (mergedLabels labels),
     k_certificationsTraining = l_certifications (mergedLabels labels),
     k_awards = l_awards (mergedLabels labels),
     k_creativeTools = l_creativeTools (mergedLabels labels)\<rparr>"

text \<open>
  For each component: its default labels, its \<open>labelByKey\<close>, its \<open>rows\<close> and the block it
  renders for a given \<open>additional\<close> (the two-column template with the section visible).
\<close>

definition views ::
  "(string \<Rightarrow> string) \<Rightarrow> (string \<rightharpoonup> string) option \<Rightarrow> (string \<rightharpoonup> string) option
   \<Rightarrow> AdditionalInfo \<Rightarrow> (KeyLabels \<times> KeyLabels \<times> Row list \<times> Block option) list"
where
  "views t sectionHeadings labels additional =
    [(HighlightedResumeView_defaultLabels t,
      HighlightedResumeView_labelByKey t additional,
      HighlightedResumeView_rows t additional,
      HighlightedResumeView_block t (Some additional)),
     (ResumeModernTwoColumn_defaultLabels sectionHeadings,
      ResumeModernTwoColumn_labelByKey sectionHeadings additional,
      ResumeModernTwoColumn_rows sectionHeadings additional,
      ResumeModernTwoColumn_block True sectionHeadings (Some additional)),
     (AdditionalSection_defaultLabels labels,
      AdditionalSection_labelByKey labels additional,
      AdditionalSection_rows labels additional,
      AdditionalSection labels (Some additional)),
     (AdditionalSection_defaultLabels labels,
      ResumeModern_labelByKey labels additional,
      ResumeModern_rows labels additional,
      ResumeModern_AdditionalSection labels (Some additional))]"

text \<open>The text the four components share, written once; the lemmas below relate each to it.\<close>

definition label_with :: "AdditionalInfo \<Rightarrow> KeyLabels \<Rightarrow> KeyLabels" where
  "label_with additional defaults =
    \<lparr>k_technicalSkills = str_or (override additional ''technicalSkills'') (k_technicalSkills defaults),
     k_languages = str_or (override additional ''languages'') (k_languages defaults),
     k_certificationsTraining =
       str_or (override additional ''certificationsTraining'') (k_certificationsTraining defaults),
     k_awards = str_or (override additional ''awards'') (k_awards defaults),
     k_creativeTools = str_or (override additional ''creativeTools'') (k_creativeTools defaults)\<rparr>"

definition rows_core :: "KeyLabels \<Rightarrow> AdditionalInfo \<Rightarrow> Row list" where
  "rows_core lbls additional =
     map (\<lambda>k. \<lparr>key = k, label = KeyLabels_at lbls k, items = nullish (additional_at additional k) []\<rparr>)
       (filter (\<lambda>k. nullish (additional_at additional k) [] \<noteq> [])
          (nullish (additionalSectionOrder additional) DEFAULT_ADDITIONAL_SECTION_ORDER))"

definition block_core :: "Row list \<Rightarrow> AdditionalInfo \<Rightarrow> Block option" where
  "block_core rows additional =
    (if rows = [] then None
     else Some \<lparr>leftRows = take (Math_ceil_half (length rows)) rows,
                rightRows = drop (Math_ceil_half (length rows)) rows,
                leftRatio = Math_min (Fin 0.75)
                  (Math_max (Fin 0.25) (nullish (skillsLeftColumnRatio additional) (Fin 0.5))),
                rightFraction = js_sub (Fin 1) (Math_min (Fin 0.75)
                  (Math_max (Fin 0.25) (nullish (skillsLeftColumnRatio additional) (Fin 0.5)))),
                gapRem = Math_min (Fin 2.5)
                  (Math_max (Fin 0.5) (nullish (skillsColumnGapRem additional) (Fin 1.25)))\<rparr>)"

section \<open>Example data\<close>

text \<open>
  A translation lookup and a \<open>sectionHeadings\<close> prop that give the labels the single-column
  templates default to, and an \<open>additional\<close> with three categories filled in, an override of
  three spaces for awards and a left ratio of 0.9.
\<close>

definition example_t :: "string \<Rightarrow> string" where
  "example_t k = (if k = ''resume.additional.technicalSkills'' then ''Technical Skills:''
           else if k = ''resume.sections.languages'' then ''Languages:''
           else if k = ''resume.sections.certifications'' then ''Certifications:''
           else if k = ''resume.sections.awards'' then ''Awards:''
           else if k = ''resume.sections.creativeTools'' then ''Creative Tools:''
           else k)"

definition example_sectionHeadings :: "(string \<rightharpoonup> string) option" where
  "example_sectionHeadings = Some [''skills'' \<mapsto> ''Technical Skills:'', ''languages'' \<mapsto> ''Languages:'',
     ''certifications'' \<mapsto> ''Certifications:'', ''awards'' \<mapsto> ''Awards:'',
     ''creativeTools'' \<mapsto> ''Creative Tools:'']"

definition example_additional :: AdditionalInfo where
  "example_additional = \<lparr>technicalSkills = Some [''Go'', ''Rust''], languages = Some [],
         certificationsTraining = Some [''AWS''], awards = Some [''Prize''], creativeTools = None,
         additionalSectionOrder = None, additionalSubsectionLabels = Some [''awards'' \<mapsto> ''   ''],
         skillsLeftColumnRatio = Some (Fin 0.9), skillsColumnGapRem = None,
         otherProps = Map.empty\<rparr>"

section \<open>The resolver as the specification words it\<close>





text \<open>The array under a key is missing or empty.\<close>

definition no_items :: "AdditionalInfo \<Rightarrow> string \<Rightarrow> bool" where
  "no_items additional k = (additional_at additional k = None \<or> additional_at additional k = Some [])"



definition reordered_additional :: AdditionalInfo where
  "reordered_additional = example_additional
     \<lparr>additionalSectionOrder := Some [''awards'', ''technicalSkills'']\<rparr>"

section \<open>What a handler may do to the store\<close>

text \<open>
  The outcome \<open>(h', r)\<close> of a handler that edits \<open>field\<close> of \<open>data\<close> in the store \<open>h\<close>: every
  cell of \<open>h\<close> is in \<open>h'\<close> unchanged; when \<open>onChange\<close> is not called the store is as it was; when
  it is called, its argument is an object allocated by the handler, and every property of it
  but \<open>field\<close> reads as it does on \<open>data\<close>.
\<close>

definition replaces_whole_object :: "store \<Rightarrow> val \<Rightarrow> string \<Rightarrow> store \<times> val option \<Rightarrow> bool" where
  "replaces_whole_object h data field outcome =
    (case outcome of
       (h', r) \<Rightarrow>
         take (length h) h' = h
         \<and> (case r of
               None \<Rightarrow> h' = h
             | Some new \<Rightarrow>
                 (\<exists>n. new = Ref n \<and> length h \<le> n \<and> n < length h')
                 \<and> (\<forall>p. p \<noteq> field \<longrightarrow> get_prop h' new p = get_prop h data p)))"

text \<open>
  A store for the examples: the module's default order at address 0, a one-item array at 1,
  an \<open>AdditionalInfo\<close> object at 2 and a \<open>PersonalInfo\<close> object at 3.
\<close>

definition example_store :: store where
  "example_store =
    [Arr [Str ''technicalSkills'', Str ''languages'', Str ''certificationsTraining'',
          Str ''awards'', Str ''creativeTools''],
     Arr [Str ''Go''],
     Obj [(''technicalSkills'', Ref 1), (''skillsColumnGapRem'', Num (Fin 1))],
     Obj [(''name'', Str ''Ada''), (''email'', Str ''ada@example.org'')]]"

section \<open>Properties of the layout resolution\<close>

subsection \<open>Each component follows the shared text\<close>

lemma map_filter_rows:
  "List.map_filter
     (\<lambda>k. let its = nullish (additional_at additional k) []
          in if length its > 0 then Some \<lparr>key = k, label = f k, items = its\<rparr> else None) order
   = map (\<lambda>k. \<lparr>key = k, label = f k, items = nullish (additional_at additional k) []\<rparr>)
       (filter (\<lambda>k. nullish (additional_at additional k) [] \<noteq> []) order)"
  by (induction order) (simp_all add: List.map_filter_simps Let_def)

lemma HighlightedResumeView_rows_core:
  "HighlightedResumeView_rows t additional =
     rows_core (HighlightedResumeView_labelByKey t additional) additional"
  unfolding HighlightedResumeView_rows_def HighlightedResumeView_order_def rows_core_def Let_def
  by (rule map_filter_rows[unfolded Let_def])

lemma ResumeModernTwoColumn_rows_core:
  "ResumeModernTwoColumn_rows sh additional =
     rows_core (ResumeModernTwoColumn_labelByKey sh additional) additional"
  unfolding ResumeModernTwoColumn_rows_def ResumeModernTwoColumn_order_def rows_core_def Let_def
  by (rule map_filter_rows[unfolded Let_def])

lemma AdditionalSection_rows_core:
  "AdditionalSection_rows labels additional =
     rows_core (AdditionalSection_labelByKey labels additional) additional"
  unfolding AdditionalSection_rows_def AdditionalSection_order_def rows_core_def Let_def
  by (rule map_filter_rows[unfolded Let_def])

lemma ResumeModern_rows_core:
  "ResumeModern_rows labels additional =
     rows_core (ResumeModern_labelByKey labels additional) additional"
  unfolding ResumeModern_rows_def ResumeModern_order_def rows_core_def Let_def
  by (rule map_filter_rows[unfolded Let_def])

lemma HighlightedResumeView_block_core:
  "HighlightedResumeView_block t (Some additional) =
     block_core (HighlightedResumeView_rows t additional) additional"
  by (simp add: HighlightedResumeView_block_def block_core_def Let_def slice_to_def slice_from_def)

lemma ResumeModernTwoColumn_block_core:
  "ResumeModernTwoColumn_block True sh (Some additional) =
     block_core (ResumeModernTwoColumn_rows sh additional) additional"
  by (simp add: ResumeModernTwoColumn_block_def block_core_def Let_def slice_to_def slice_from_def)

lemma AdditionalSection_block_core:
  "AdditionalSection labels (Some additional) =
     block_core (AdditionalSection_rows labels additional) additional"
  by (simp add: AdditionalSection_def block_core_def Let_def slice_to_def slice_from_def)

lemma ResumeModern_block_core:
  "ResumeModern_AdditionalSection labels (Some additional) =
     block_core (ResumeModern_rows labels additional) additional"
  by (simp add: ResumeModern_AdditionalSection_def block_core_def Let_def slice_to_def slice_from_def)

lemma HighlightedResumeView_labelByKey_with:
  "HighlightedResumeView_labelByKey t additional =
     label_with additional (HighlightedResumeView_defaultLabels t)"
  by (simp add: HighlightedResumeView_labelByKey_def label_with_def Let_def)

lemma ResumeModernTwoColumn_labelByKey_with:
  "ResumeModernTwoColumn_labelByKey sh additional =
     label_with additional (ResumeModernTwoColumn_defaultLabels sh)"
  by (simp add: ResumeModernTwoColumn_labelByKey_def label_with_def
      ResumeModernTwoColumn_defaultLabels_def)

lemma AdditionalSection_labelByKey_with:
  "AdditionalSection_labelByKey labels additional =
     label_with additional (AdditionalSection_defaultLabels labels)"
  by (simp add: AdditionalSection_labelByKey_def label_with_def AdditionalSection_defaultLabels_def)

lemma ResumeModern_labelByKey_with:
  "ResumeModern_labelByKey labels additional =
     label_with additional (AdditionalSection_defaultLabels labels)"
  by (simp add: ResumeModern_labelByKey_def label_with_def AdditionalSection_defaultLabels_def)

lemmas rows_cores = HighlightedResumeView_rows_core ResumeModernTwoColumn_rows_core
  AdditionalSection_rows_core ResumeModern_rows_core

lemmas block_cores = HighlightedResumeView_block_core ResumeModernTwoColumn_block_core
  AdditionalSection_block_core ResumeModern_block_core

lemmas labels_with = HighlightedResumeView_labelByKey_with ResumeModernTwoColumn_labelByKey_with
  AdditionalSection_labelByKey_with ResumeModern_labelByKey_with

lemma views_core:
  assumes "(D, L, rows, blk) \<in> set (views t sh labels additional)"
  shows "L = label_with additional D" and "rows = rows_core L additional"
    and "blk = block_core rows additional"
  using assms by (auto simp: views_def block_cores rows_cores labels_with)

subsection \<open>The example, evaluated\<close>

lemma example_defaults:
  "HighlightedResumeView_defaultLabels example_t = AdditionalSection_defaultLabels None"
  "ResumeModernTwoColumn_defaultLabels example_sectionHeadings = AdditionalSection_defaultLabels None"
  by (simp_all add: HighlightedResumeView_defaultLabels_def AdditionalSection_defaultLabels_def
    ResumeModernTwoColumn_defaultLabels_def example_t_def example_sectionHeadings_def mergedLabels_def
    headingFallbacks_def nullish_def opt_prop_def)

lemma example_block:
  "HighlightedResumeView_block example_t (Some example_additional) =
    Some \<lparr>leftRows =
       [\<lparr>key = ''technicalSkills'', label = Some ''Technical Skills:'', items = [''Go'', ''Rust'']\<rparr>,
        \<lparr>key = ''certificationsTraining'', label = Some ''Certifications:'', items = [''AWS'']\<rparr>],
     rightRows = [\<lparr>key = ''awards'', label = Some ''Awards:'', items = [''Prize'']\<rparr>],
     leftRatio = Fin 0.75, rightFraction = Fin 0.25, gapRem = Fin 1.25\<rparr>"
  by code_simp

lemma example_rows_length:
  "length (HighlightedResumeView_rows example_t example_additional) = 3"
  by code_simp

lemma example_view:
  "(HighlightedResumeView_defaultLabels example_t,
    HighlightedResumeView_labelByKey example_t example_additional,
    HighlightedResumeView_rows example_t example_additional,
    HighlightedResumeView_block example_t (Some example_additional))
   \<in> set (views example_t example_sectionHeadings None example_additional)"
  by (simp add: views_def)

subsection \<open>One resolution in every component\<close>

text \<open>
  C1. Given the same table of default labels, the keyword-highlight view, the two-column
  template (with the section visible) and both single-column templates compute the same row
  list and the same block for every \<open>additional\<close>: the same columns, the same left ratio and
  the same gap.
\<close>

theorem layout_identical_across_views:
  assumes "HighlightedResumeView_defaultLabels t = D"
      and "ResumeModernTwoColumn_defaultLabels sectionHeadings = D"
      and "AdditionalSection_defaultLabels labels = D"
  shows "ResumeModernTwoColumn_rows sectionHeadings additional = HighlightedResumeView_rows t additional
       \<and> AdditionalSection_rows labels additional = HighlightedResumeView_rows t additional
       \<and> ResumeModern_rows labels additional = HighlightedResumeView_rows t additional
       \<and> ResumeModernTwoColumn_block True sectionHeadings (Some additional)
           = HighlightedResumeView_block t (Some additional)
       \<and> AdditionalSection labels (Some additional) = HighlightedResumeView_block t (Some additional)
       \<and> ResumeModern_AdditionalSection labels (Some additional)
           = HighlightedResumeView_block t (Some additional)"
  using assms by (simp add: block_cores rows_cores labels_with)

theorem layout_identical_across_views_witness:
  "HighlightedResumeView_defaultLabels example_t = AdditionalSection_defaultLabels None
   \<and> ResumeModernTwoColumn_defaultLabels example_sectionHeadings = AdditionalSection_defaultLabels None
   \<and> ResumeModernTwoColumn_block True example_sectionHeadings (Some example_additional) =
    Some \<lparr>leftRows =
       [\<lparr>key = ''technicalSkills'', label = Some ''Technical Skills:'', items = [''Go'', ''Rust'']\<rparr>,
        \<lparr>key = ''certificationsTraining'', label = Some ''Certifications:'', items = [''AWS'']\<rparr>],
     rightRows = [\<lparr>key = ''awards'', label = Some ''Awards:'', items = [''Prize'']\<rparr>],
     leftRatio = Fin 0.75, rightFraction = Fin 0.25, gapRem = Fin 1.25\<rparr>
   \<and> AdditionalSection None (Some example_additional)
       = HighlightedResumeView_block example_t (Some example_additional)
   \<and> ResumeModern_AdditionalSection None (Some example_additional)
       = HighlightedResumeView_block example_t (Some example_additional)"
  using layout_identical_across_views [OF example_defaults(1) example_defaults(2) refl,
      of example_additional]
    example_defaults example_block
  by simp

subsection \<open>The two columns\<close>

lemma block_core_split:
  assumes "rows \<noteq> []"
  shows "\<exists>b. block_core rows additional = Some b
        \<and> leftRows b = take (nat \<lceil>real (length rows) / 2\<rceil>) rows
        \<and> rightRows b = drop (nat \<lceil>real (length rows) / 2\<rceil>) rows"
  using assms by (simp add: block_core_def Math_ceil_half_def)

text \<open>
  C2. In every component, a non-empty row list of length \<open>n\<close> is cut after its first
  \<open>ceil(n/2)\<close> rows: those form the left column, the other \<open>n - ceil(n/2)\<close> the right column,
  and the left column followed by the right column is the row list again.
\<close>

theorem column_split:
  assumes "(D, L, rows, blk) \<in> set (views t sectionHeadings labels additional)"
      and "rows \<noteq> []"
  shows "\<exists>b. blk = Some b
        \<and> leftRows b = take (nat \<lceil>real (length rows) / 2\<rceil>) rows
        \<and> rightRows b = drop (nat \<lceil>real (length rows) / 2\<rceil>) rows
        \<and> length (leftRows b) = nat \<lceil>real (length rows) / 2\<rceil>
        \<and> length (rightRows b) = length rows - nat \<lceil>real (length rows) / 2\<rceil>
        \<and> leftRows b @ rightRows b = rows"
proof -
  have blk: "blk = block_core rows additional"
    using assms(1) by (rule views_core)
  obtain b where b: "block_core rows additional = Some b"
      "leftRows b = take (nat \<lceil>real (length rows) / 2\<rceil>) rows"
      "rightRows b = drop (nat \<lceil>real (length rows) / 2\<rceil>) rows"
    using block_core_split[OF assms(2)] by blast
  have "nat \<lceil>real (length rows) / 2\<rceil> \<le> length rows"
    by linarith
  then have "length (leftRows b) = nat \<lceil>real (length rows) / 2\<rceil>"
    by (simp add: b(2))
  then show ?thesis
    using blk b by simp
qed

theorem column_split_witness:
  "(HighlightedResumeView_defaultLabels example_t,
    HighlightedResumeView_labelByKey example_t example_additional,
    HighlightedResumeView_rows example_t example_additional,
    HighlightedResumeView_block example_t (Some example_additional))
   \<in> set (views example_t example_sectionHeadings None example_additional)
   \<and> HighlightedResumeView_rows example_t example_additional \<noteq> []
   \<and> (\<exists>b. HighlightedResumeView_block example_t (Some example_additional) = Some b
        \<and> length (leftRows b) = 2 \<and> length (rightRows b) = 1)"
proof -
  have ne: "HighlightedResumeView_rows example_t example_additional \<noteq> []"
    using example_rows_length by auto
  show ?thesis
    using column_split [OF example_view ne] example_view ne example_rows_length
    by auto
qed

subsection \<open>Ratio and gap\<close>










subsection \<open>Which rows there are\<close>

lemma rows_core_keys:
  "map key (rows_core L additional) =
     filter (\<lambda>k. \<not> no_items additional k)
       (nullish (additionalSectionOrder additional) DEFAULT_ADDITIONAL_SECTION_ORDER)"
proof -
  have "\<And>k. (nullish (additional_at additional k) [] \<noteq> []) = (\<not> no_items additional k)"
    by (auto simp: nullish_def no_items_def split: option.splits)
  then show ?thesis
    by (simp add: rows_core_def comp_def)
qed












subsection \<open>Order of display\<close>

lemma nullish_order:
  "nullish (additionalSectionOrder additional) DEFAULT_ADDITIONAL_SECTION_ORDER =
    (case additionalSectionOrder additional of
       Some order \<Rightarrow> order
     | None \<Rightarrow> [''technicalSkills'', ''languages'', ''certificationsTraining'', ''awards'',
                 ''creativeTools''])"
  by (simp add: nullish_def DEFAULT_ADDITIONAL_SECTION_ORDER_def split: option.splits)

text \<open>
  C5. In every component the order of display is \<open>additionalSectionOrder\<close> when the field is
  present and the fixed default order otherwise, and the rows follow it. With
  \<open>additionalSectionOrder = [awards, technicalSkills]\<close> and both categories filled, the
  awards row makes the left column and the technical-skills row the right column.
\<close>

theorem display_order:
  assumes "(D, L, rows, blk) \<in> set (views t sectionHeadings labels additional)"
  shows "HighlightedResumeView_order additional =
           (case additionalSectionOrder additional of
              Some order \<Rightarrow> order
            | None \<Rightarrow> [''technicalSkills'', ''languages'', ''certificationsTraining'', ''awards'',
                        ''creativeTools''])
       \<and> ResumeModernTwoColumn_order additional = HighlightedResumeView_order additional
       \<and> AdditionalSection_order additional = HighlightedResumeView_order additional
       \<and> ResumeModern_order additional = HighlightedResumeView_order additional
       \<and> map key rows =
           filter (\<lambda>k. \<not> no_items additional k) (HighlightedResumeView_order additional)
       \<and> (additionalSectionOrder additional = Some [''awards'', ''technicalSkills'']
            \<and> awards additional = Some (x # xs) \<and> technicalSkills additional = Some (y # ys)
          \<longrightarrow> (\<exists>b. blk = Some b \<and> map key (leftRows b) = [''awards'']
                  \<and> map key (rightRows b) = [''technicalSkills'']))"
proof -
  have rows: "rows = rows_core L additional" and blk: "blk = block_core rows additional"
    using views_core[OF assms] by simp_all
  have keys: "map key rows =
      filter (\<lambda>k. \<not> no_items additional k) (HighlightedResumeView_order additional)"
    unfolding rows HighlightedResumeView_order_def by (rule rows_core_keys)
  have ex: "\<exists>b. blk = Some b \<and> map key (leftRows b) = [''awards'']
                  \<and> map key (rightRows b) = [''technicalSkills'']"
    if a: "additionalSectionOrder additional = Some [''awards'', ''technicalSkills'']
            \<and> awards additional = Some (x # xs) \<and> technicalSkills additional = Some (y # ys)"
  proof -
    have k: "map key rows = [''awards'', ''technicalSkills'']"
      unfolding keys using a
      by (simp add: HighlightedResumeView_order_def nullish_def no_items_def additional_at_def)
    then have ne: "rows \<noteq> []" and len: "length rows = 2"
      using arg_cong[OF k, of length] by auto
    obtain b where b: "block_core rows additional = Some b"
      "leftRows b = take (nat \<lceil>real (length rows) / 2\<rceil>) rows"
      "rightRows b = drop (nat \<lceil>real (length rows) / 2\<rceil>) rows"
      using block_core_split[OF ne] by blast
    have "map key (leftRows b) = take 1 (map key rows)" "map key (rightRows b) = drop 1 (map key rows)"
      using b(2,3) len by (simp_all add: take_map drop_map)
    then show ?thesis using blk b(1) k by simp
  qed
  show ?thesis
    using keys ex
    by (simp add: HighlightedResumeView_order_def ResumeModernTwoColumn_order_def
        AdditionalSection_order_def ResumeModern_order_def nullish_order)
qed

lemma reordered_view:
  "(ResumeModernTwoColumn_defaultLabels example_sectionHeadings,
    ResumeModernTwoColumn_labelByKey example_sectionHeadings reordered_additional,
    ResumeModernTwoColumn_rows example_sectionHeadings reordered_additional,
    ResumeModernTwoColumn_block True example_sectionHeadings (Some reordered_additional))
   \<in> set (views example_t example_sectionHeadings None reordered_additional)"
  by (simp add: views_def)

lemma reordered_fields:
  "additionalSectionOrder reordered_additional = Some [''awards'', ''technicalSkills'']"
  "awards reordered_additional = Some [''Prize'']"
  "technicalSkills reordered_additional = Some [''Go'', ''Rust'']"
  by (simp_all add: reordered_additional_def example_additional_def)

theorem display_order_witness:
  "(ResumeModernTwoColumn_defaultLabels example_sectionHeadings,
    ResumeModernTwoColumn_labelByKey example_sectionHeadings reordered_additional,
    ResumeModernTwoColumn_rows example_sectionHeadings reordered_additional,
    ResumeModernTwoColumn_block True example_sectionHeadings (Some reordered_additional))
   \<in> set (views example_t example_sectionHeadings None reordered_additional)
   \<and> additionalSectionOrder reordered_additional = Some [''awards'', ''technicalSkills'']
   \<and> awards reordered_additional = Some [''Prize'']
   \<and> technicalSkills reordered_additional = Some [''Go'', ''Rust'']
   \<and> (\<exists>b. ResumeModernTwoColumn_block True example_sectionHeadings (Some reordered_additional)
            = Some b
          \<and> map key (leftRows b) = [''awards''] \<and> map key (rightRows b) = [''technicalSkills''])"
  using display_order [OF reordered_view, of "''Prize''" "[]" "''Go''" "[''Rust'']"]
    reordered_view reordered_fields
  by simp


subsection \<open>Labels\<close>








subsection \<open>Certifications in the two-column template\<close>

lemma rows_core_has:
  assumes "k \<in> set (nullish (additionalSectionOrder additional) DEFAULT_ADDITIONAL_SECTION_ORDER)"
      and "additional_at additional k = Some its" and "its \<noteq> []"
  shows "\<lparr>key = k, label = KeyLabels_at L k, items = its\<rparr> \<in> set (rows_core L additional)"
  using assms by (force simp: rows_core_def nullish_def)

text \<open>
  C10, as the code has it. In \<open>ResumeModernTwoColumn\<close>, when the additional section is
  visible, \<open>certificationsTraining\<close> is not empty and the resolved order names
  \<open>certificationsTraining\<close>, the certifications are rendered twice: as the section of the
  main column, and as a row of the sidebar block.
\<close>

theorem certifications_rendered_twice:
  assumes "certificationsTraining additional = Some certs" and "certs \<noteq> []"
      and "''certificationsTraining'' \<in> set (ResumeModernTwoColumn_order additional)"
  shows "ResumeModernTwoColumn_certifications True (Some additional) = Some certs
       \<and> (\<exists>b. ResumeModernTwoColumn_block True sectionHeadings (Some additional) = Some b
            \<and> \<lparr>key = ''certificationsTraining'',
                label = KeyLabels_at (ResumeModernTwoColumn_labelByKey sectionHeadings additional)
                          ''certificationsTraining'',
                items = certs\<rparr> \<in> set (leftRows b @ rightRows b))"
proof -
  let ?rows = "ResumeModernTwoColumn_rows sectionHeadings additional"
  let ?L = "ResumeModernTwoColumn_labelByKey sectionHeadings additional"
  have at: "additional_at additional ''certificationsTraining'' = Some certs"
    using assms(1) by (simp add: additional_at_def)
  have row: "\<lparr>key = ''certificationsTraining'', label = KeyLabels_at ?L ''certificationsTraining'',
      items = certs\<rparr> \<in> set ?rows"
    unfolding ResumeModernTwoColumn_rows_core
    using assms(3) at assms(2) unfolding ResumeModernTwoColumn_order_def by (rule rows_core_has)
  then have ne: "?rows \<noteq> []" by auto
  obtain b where b: "block_core ?rows additional = Some b"
      "leftRows b = take (nat \<lceil>real (length ?rows) / 2\<rceil>) ?rows"
      "rightRows b = drop (nat \<lceil>real (length ?rows) / 2\<rceil>) ?rows"
    using block_core_split[OF ne] by blast
  have "leftRows b @ rightRows b = ?rows"
    by (simp add: b(2,3))
  then have "ResumeModernTwoColumn_block True sectionHeadings (Some additional) = Some b
      \<and> \<lparr>key = ''certificationsTraining'', label = KeyLabels_at ?L ''certificationsTraining'',
          items = certs\<rparr> \<in> set (leftRows b @ rightRows b)"
    using row b(1) by (simp add: ResumeModernTwoColumn_block_core)
  moreover have "ResumeModernTwoColumn_certifications True (Some additional) = Some certs"
    using assms(1,2) by (simp add: ResumeModernTwoColumn_certifications_def)
  ultimately show ?thesis by blast
qed

lemma example_certs:
  "certificationsTraining example_additional = Some [''AWS'']"
  "''certificationsTraining'' \<in> set (ResumeModernTwoColumn_order example_additional)"
  by (simp_all add: example_additional_def ResumeModernTwoColumn_order_def nullish_def
      DEFAULT_ADDITIONAL_SECTION_ORDER_def)

theorem certifications_rendered_twice_witness:
  "certificationsTraining example_additional = Some [''AWS''] \<and> [''AWS''] \<noteq> []
   \<and> ''certificationsTraining'' \<in> set (ResumeModernTwoColumn_order example_additional)
   \<and> ResumeModernTwoColumn_certifications True (Some example_additional) = Some [''AWS'']
   \<and> (\<exists>b. ResumeModernTwoColumn_block True example_sectionHeadings (Some example_additional) = Some b
        \<and> \<lparr>key = ''certificationsTraining'',
            label = KeyLabels_at (ResumeModernTwoColumn_labelByKey example_sectionHeadings example_additional)
                      ''certificationsTraining'',
            items = [''AWS'']\<rparr> \<in> set (leftRows b @ rightRows b))"
  using certifications_rendered_twice [OF example_certs(1) _ example_certs(2),
      of example_sectionHeadings] example_certs
  by simp

text \<open>
  C10 as stated fails: the sidebar block lists only the keys of the order. With the order
  \<open>[awards, technicalSkills]\<close> the certifications appear in the main column alone.
\<close>

theorem certifications_once_counterexample:
  "ResumeModernTwoColumn_certifications True
      (Some (example_additional\<lparr>additionalSectionOrder := Some [''awards'', ''technicalSkills'']\<rparr>))
     = Some [''AWS'']
   \<and> ResumeModernTwoColumn_block True None
      (Some (example_additional\<lparr>additionalSectionOrder := Some [''awards'', ''technicalSkills'']\<rparr>))
     = Some \<lparr>leftRows = [\<lparr>key = ''awards'', label = Some ''Awards'', items = [''Prize'']\<rparr>],
             rightRows = [\<lparr>key = ''technicalSkills'', label = Some ''Skills'',
                           items = [''Go'', ''Rust'']\<rparr>],
             leftRatio = Fin 0.75, rightFraction = Fin 0.25, gapRem = Fin 1.25\<rparr>"
  by code_simp

section \<open>Properties of the keyword segmenter\<close>

lemma concat_flush: "concat (map seg_text (flush pending)) = pending"
  by (simp add: flush_def)

lemma segment_from_concat:
  "concat (map seg_text (segment_from kws prev pending rest)) = pending @ rest"
proof (induction kws prev pending rest rule: segment_from.induct)
  case (1 kws prev pending)
  then show ?case by (simp add: concat_flush)
next
  case (2 kws prev pending c cs)
  show ?case
  proof (cases "longestMatch kws prev (c # cs) = 0")
    case True
    then show ?thesis using 2(1) by simp
  next
    case False
    then show ?thesis
      using 2(2)[OF refl False]
      by (simp add: concat_flush Let_def del: take_Suc_Cons drop_Suc_Cons flip: append_assoc)
  qed
qed

text \<open>
  C8. For every text and every keyword set, the texts of the segments, concatenated in
  order, are the text.
\<close>

theorem segments_reconstruct_text:
  "concat (map seg_text (segmentTextByKeywords txt kws)) = txt"
  by (simp add: segmentTextByKeywords_def segment_from_concat)

text \<open>The examples of the specification, run on the model.\<close>

lemma segmenter_examples:
  "segmentTextByKeywords ''Python developer'' [''python''] =
     [\<lparr>seg_text = ''Python'', isMatch = True\<rparr>, \<lparr>seg_text = '' developer'', isMatch = False\<rparr>]"
  "segmentTextByKeywords ''Java is not JavaScript'' [''java''] =
     [\<lparr>seg_text = ''Java'', isMatch = True\<rparr>, \<lparr>seg_text = '' is not JavaScript'', isMatch = False\<rparr>]"
  "segmentTextByKeywords ''machine learning engineer'' [''machine'', ''machine learning''] =
     [\<lparr>seg_text = ''machine learning'', isMatch = True\<rparr>, \<lparr>seg_text = '' engineer'', isMatch = False\<rparr>]"
  "segmentTextByKeywords ''abc'' [] = [\<lparr>seg_text = ''abc'', isMatch = False\<rparr>]"
  "segmentTextByKeywords [] [''art''] = [\<lparr>seg_text = [], isMatch = False\<rparr>]"
  by code_simp+

section \<open>Properties of the editing forms\<close>

subsection \<open>Lists\<close>

lemma indexOf_range: "- 1 \<le> indexOf xs x \<and> indexOf xs x < int (length xs)"
  by (induction xs) (auto simp: Let_def)

lemma indexOf_absent: "(indexOf xs x = - 1) = (x \<notin> set xs)"
proof (induction xs)
  case Nil
  then show ?case by simp
next
  case (Cons y ys)
  have "- 1 \<le> indexOf ys x" by (simp add: indexOf_range)
  then show ?case using Cons by (auto simp: Let_def)
qed

lemma indexOf_nth:
  "x \<in> set xs \<Longrightarrow> nat (indexOf xs x) < length xs \<and> xs ! nat (indexOf xs x) = x"
proof (induction xs)
  case Nil
  then show ?case by simp
next
  case (Cons y ys)
  show ?case
  proof (cases "y = x")
    case True
    then show ?thesis by simp
  next
    case False
    then have in_ys: "x \<in> set ys" using Cons.prems by simp
    then have "indexOf ys x \<noteq> - 1" by (simp add: indexOf_absent)
    moreover have "- 1 \<le> indexOf ys x" by (simp add: indexOf_range)
    ultimately have nonneg: "0 \<le> indexOf ys x" by linarith
    then have "nat (indexOf ys x + 1) = Suc (nat (indexOf ys x))" by linarith
    then show ?thesis
      using False Cons.IH[OF in_ys] \<open>indexOf ys x \<noteq> - 1\<close> by (simp add: Let_def)
  qed
qed

text \<open>Removing the element at \<open>i\<close> and inserting it at \<open>j\<close>.\<close>

lemma move_facts:
  assumes i: "i < length xs" and j: "j < length xs"
  defines "zs \<equiv> take i xs @ drop (i + 1) xs"
  defines "ys \<equiv> take j zs @ [xs ! i] @ drop j zs"
  shows "length ys = length xs" and "ys ! j = xs ! i"
    and "take j ys @ drop (Suc j) ys = take i xs @ drop (Suc i) xs"
    and "mset ys = mset xs"
proof -
  have lz: "length zs = length xs - 1"
    using i by (simp add: zs_def)
  then have jz: "j \<le> length zs" using j by simp
  show "length ys = length xs"
    using i lz by (simp add: ys_def)
  have lt: "length (take j zs) = j" using jz by simp
  show "ys ! j = xs ! i"
    unfolding ys_def using lt by (metis append_Cons nth_append_length)
  have "take j ys = take j zs" unfolding ys_def using lt by simp
  moreover have "drop (Suc j) ys = drop j zs"
    unfolding ys_def using lt by (simp add: drop_append)
  ultimately have "take j ys @ drop (Suc j) ys = zs"
    by (simp only: append_take_drop_id)
  then show "take j ys @ drop (Suc j) ys = take i xs @ drop (Suc i) xs"
    by (simp only: zs_def Suc_eq_plus1)
  have "mset (take j zs) + mset (drop j zs) = mset zs"
    by (simp flip: mset_append)
  then have "mset ys = mset zs + {#xs ! i#}"
    unfolding ys_def by simp
  also have "\<dots> = mset (take i xs @ xs ! i # drop (Suc i) xs)"
    by (simp add: zs_def)
  also have "\<dots> = mset xs"
    using id_take_nth_drop[OF i] by simp
  finally show "mset ys = mset xs" .
qed


subsection \<open>The store\<close>

lemma props_of_append: "a < length h \<Longrightarrow> props_of (h @ cs) (Ref a) = props_of h (Ref a)"
  by (simp add: props_of_def nth_append)

lemma props_of_new: "props_of (h @ [Obj ps]) (Ref (length h)) = ps"
  by (simp add: props_of_def)

lemma elems_of_new: "elems_of (h @ [Arr xs]) (Ref (length h)) = xs"
  by (simp add: elems_of_def)

lemma get_prop_new_other:
  "p \<noteq> field \<Longrightarrow>
     get_prop (h @ [Obj (AList.update field v ps)]) (Ref (length h)) p
       = (case map_of ps p of None \<Rightarrow> Undefined | Some x \<Rightarrow> x)"
  by (simp add: get_prop_def props_of_new update_conv')

lemma get_prop_new_same:
  "get_prop (h @ [Obj (AList.update field v ps)]) (Ref (length h)) field = v"
  by (simp add: get_prop_def props_of_new update_conv')

subsection \<open>What each handler leaves behind\<close>

lemma handleChange_frame:
  assumes "a < length h"
  shows "replaces_whole_object h (Ref a) field (handleChange h (Ref a) field v)"
  by (simp add: replaces_whole_object_def handleChange_def alloc_def get_prop_new_other)
     (simp add: get_prop_def)

lemma handleColumnRatioChange_frame:
  assumes "a < length h"
  shows "replaces_whole_object h (Ref a) ''skillsLeftColumnRatio'' (handleColumnRatioChange h (Ref a) n)"
  by (simp add: replaces_whole_object_def handleColumnRatioChange_def alloc_def get_prop_new_other)
     (simp add: get_prop_def)

lemma handleColumnGapChange_frame:
  assumes "a < length h"
  shows "replaces_whole_object h (Ref a) ''skillsColumnGapRem'' (handleColumnGapChange h (Ref a) n)"
  by (simp add: replaces_whole_object_def handleColumnGapChange_def alloc_def get_prop_new_other)
     (simp add: get_prop_def)

lemma handleArrayChange_frame:
  assumes "a < length h"
  shows "replaces_whole_object h (Ref a) field (handleArrayChange h (Ref a) field v)"
proof -
  let ?h1 = "h @ [Arr (map Str (filter (\<lambda>item. trim item \<noteq> []) (split_lines v)))]"
  have p: "props_of ?h1 (Ref a) = props_of h (Ref a)"
    using assms by (rule props_of_append)
  have l: "length ?h1 = Suc (length h)" by simp
  show ?thesis
    unfolding replaces_whole_object_def handleArrayChange_def alloc_def Let_def prod.case p
    using get_prop_new_other[of _ field ?h1 "Ref (length h)" "props_of h (Ref a)"]
    by (simp add: get_prop_def)
qed


lemma update_new: "(h @ [c])[length h := c'] = h @ [c']"
  by simp

lemma frame_alloc_obj:
  assumes "take (length h) h2 = h" and "length h \<le> length h2"
      and "props_of h2 data = props_of h data"
  shows "replaces_whole_object h data field
           (h2 @ [Obj (AList.update field v (props_of h2 data))], Some (Ref (length h2)))"
proof -
  have "get_prop (h2 @ [Obj (AList.update field v (props_of h2 data))]) (Ref (length h2)) p
          = get_prop h data p" if "p \<noteq> field" for p
    using get_prop_new_other[OF that] assms(3) by (simp add: get_prop_def)
  then show ?thesis
    using assms(1,2) by (simp add: replaces_whole_object_def)
qed

lemma handleSubsectionLabelChange_eq:
  "handleSubsectionLabelChange h data k v =
    (let ps = props_of h (get_prop h data ''additionalSubsectionLabels'');
         ps' = (if trim v = [] then AList.delete k ps else AList.update k (Str v) ps);
         h2 = h @ [Obj ps'];
         labels = (if ps' \<noteq> [] then Ref (length h) else Undefined)
     in (h2 @ [Obj (AList.update ''additionalSubsectionLabels'' labels (props_of h2 data))],
         Some (Ref (length h2))))"
  by (simp add: handleSubsectionLabelChange_def alloc_def Let_def props_of_new update_new)

lemma handleSubsectionLabelChange_frame:
  assumes "a < length h"
  shows "replaces_whole_object h (Ref a) ''additionalSubsectionLabels''
           (handleSubsectionLabelChange h (Ref a) k v)"
  unfolding handleSubsectionLabelChange_eq Let_def
  by (rule frame_alloc_obj) (simp_all add: props_of_append[OF assms])

lemma handleDragEnd_moved:
  assumes "elems_of h (AdditionalForm_order h dflt data) = xs"
      and "Str active \<in> set xs" and "Str over_id \<in> set xs" and "active \<noteq> over_id"
  shows "handleDragEnd h dflt data active (Some over_id) =
    (let i = nat (indexOf xs (Str active)); j = nat (indexOf xs (Str over_id));
         zs = take i xs @ drop (i + 1) xs;
         ys = take j zs @ [xs ! i] @ drop j zs;
         h3 = h @ [Arr ys]
     in (h3 @ [Obj (AList.update ''additionalSectionOrder'' (Ref (length h)) (props_of h3 data))],
         Some (Ref (length h3))))"
proof -
  have i: "indexOf xs (Str active) \<noteq> - 1" and j: "indexOf xs (Str over_id) \<noteq> - 1"
    using assms(2,3) by (simp_all add: indexOf_absent)
  have n: "nat (indexOf xs (Str active)) < length xs"
    using indexOf_nth[OF assms(2)] by simp
  have t: "splice_remove1 (nat (indexOf xs (Str active))) xs =
      (take (nat (indexOf xs (Str active))) xs @ drop (nat (indexOf xs (Str active)) + 1) xs,
       [xs ! nat (indexOf xs (Str active))])"
    using Cons_nth_drop_Suc[OF n, symmetric] by (simp add: splice_remove1_def)
  show ?thesis
    using assms(1,4) i j
    by (simp add: handleDragEnd_def alloc_def Let_def elems_of_new update_new t
        splice_insert_def del: take_append drop_append)
qed

lemma handleDragEnd_unmoved:
  assumes "elems_of h (AdditionalForm_order h dflt data) = xs"
      and "over = None \<or> over = Some active \<or> Str active \<notin> set xs
           \<or> (\<exists>over_id. over = Some over_id \<and> Str over_id \<notin> set xs)"
  shows "handleDragEnd h dflt data active over = (h, None)"
  using assms by (auto simp: handleDragEnd_def Let_def indexOf_absent split: option.splits)

lemma handleDragEnd_frame:
  assumes "a < length h"
  shows "replaces_whole_object h (Ref a) ''additionalSectionOrder''
           (handleDragEnd h dflt (Ref a) active over)"
proof -
  define xs where "xs = elems_of h (AdditionalForm_order h dflt (Ref a))"
  consider (moved) over_id where "over = Some over_id" "active \<noteq> over_id"
      "Str active \<in> set xs" "Str over_id \<in> set xs"
    | (unmoved) "over = None \<or> over = Some active \<or> Str active \<notin> set xs
           \<or> (\<exists>over_id. over = Some over_id \<and> Str over_id \<notin> set xs)"
    by (cases over) auto
  then show ?thesis
  proof cases
    case moved
    show ?thesis
      unfolding moved(1) handleDragEnd_moved[OF xs_def[symmetric] moved(3,4,2)] Let_def
      by (rule frame_alloc_obj[where field = "''additionalSectionOrder''", simplified])
        (simp_all add: props_of_append[OF assms])
  next
    case unmoved
    show ?thesis
      unfolding handleDragEnd_unmoved[OF xs_def[symmetric] unmoved]
      by (simp add: replaces_whole_object_def)
  qed
qed


lemma elems_of_append:
  "elems_of h v \<noteq> [] \<Longrightarrow> elems_of (h @ cs) v = elems_of h v"
  by (auto simp: elems_of_def nth_append split: val.splits if_splits)

subsection \<open>Dragging a row\<close>

text \<open>
  C7. Let \<open>xs\<close> be the order list the form shows. When the dragged key and the drop target
  are different keys of \<open>xs\<close>, at positions \<open>i\<close> and \<open>j\<close>, \<open>handleDragEnd\<close> passes to \<open>onChange\<close>
  an object whose order list \<open>ys\<close> is a new array, a permutation of \<open>xs\<close>, with the dragged key at
  position \<open>j\<close> and all other keys in the order they had; \<open>xs\<close> itself is as it was. When the
  item is dropped outside every target or onto itself, or either key is not in \<open>xs\<close>, nothing
  is changed and \<open>onChange\<close> is not called.
\<close>

theorem drag_end_relocates:
  assumes "elems_of h (AdditionalForm_order h dflt data) = xs"
  shows "(over = Some over_id \<and> active \<noteq> over_id \<and> Str active \<in> set xs \<and> Str over_id \<in> set xs
          \<longrightarrow> (\<exists>h' new ys i j.
                 handleDragEnd h dflt data active over = (h', Some new)
                 \<and> elems_of h' (get_prop h' new ''additionalSectionOrder'') = ys
                 \<and> elems_of h' (AdditionalForm_order h dflt data) = xs
                 \<and> i = nat (indexOf xs (Str active)) \<and> j = nat (indexOf xs (Str over_id))
                 \<and> i < length xs \<and> j < length xs \<and> i \<noteq> j
                 \<and> xs ! i = Str active \<and> xs ! j = Str over_id
                 \<and> mset ys = mset xs \<and> length ys = length xs
                 \<and> ys ! j = xs ! i
                 \<and> take j ys @ drop (Suc j) ys = take i xs @ drop (Suc i) xs))
       \<and> (over = None \<or> over = Some active \<or> Str active \<notin> set xs
            \<or> (\<exists>k. over = Some k \<and> Str k \<notin> set xs)
          \<longrightarrow> handleDragEnd h dflt data active over = (h, None))"
proof (intro conjI impI)
  assume a: "over = Some over_id \<and> active \<noteq> over_id \<and> Str active \<in> set xs \<and> Str over_id \<in> set xs"
  define i where "i = nat (indexOf xs (Str active))"
  define j where "j = nat (indexOf xs (Str over_id))"
  define zs where "zs = take i xs @ drop (i + 1) xs"
  define ys where "ys = take j zs @ [xs ! i] @ drop j zs"
  define h3 where "h3 = h @ [Arr ys]"
  define h' where
    "h' = h3 @ [Obj (AList.update ''additionalSectionOrder'' (Ref (length h)) (props_of h3 data))]"
  have i: "i < length xs" "xs ! i = Str active"
    using indexOf_nth[of "Str active" xs] a by (simp_all add: i_def)
  have j: "j < length xs" "xs ! j = Str over_id"
    using indexOf_nth[of "Str over_id" xs] a by (simp_all add: j_def)
  have ij: "i \<noteq> j"
    using i(2) j(2) a by auto
  have run: "handleDragEnd h dflt data active over = (h', Some (Ref (length h3)))"
    using a handleDragEnd_moved[OF assms, of active over_id]
    by (simp add: Let_def i_def j_def zs_def ys_def h3_def h'_def)
  have new: "get_prop h' (Ref (length h3)) ''additionalSectionOrder'' = Ref (length h)"
    unfolding h'_def by (rule get_prop_new_same)
  have ys: "elems_of h' (Ref (length h)) = ys"
    by (simp add: h'_def h3_def elems_of_def nth_append)
  have "xs \<noteq> []" using i(1) by auto
  then have old: "elems_of h' (AdditionalForm_order h dflt data) = xs"
    using assms elems_of_append[of h "AdditionalForm_order h dflt data" "[Arr ys, Obj (AList.update ''additionalSectionOrder'' (Ref (length h)) (props_of h3 data))]"]
    by (simp add: h'_def h3_def)
  note m = move_facts[OF i(1) j(1), folded zs_def, folded ys_def]
  show "\<exists>h' new ys i j.
          handleDragEnd h dflt data active over = (h', Some new)
          \<and> elems_of h' (get_prop h' new ''additionalSectionOrder'') = ys
          \<and> elems_of h' (AdditionalForm_order h dflt data) = xs
          \<and> i = nat (indexOf xs (Str active)) \<and> j = nat (indexOf xs (Str over_id))
          \<and> i < length xs \<and> j < length xs \<and> i \<noteq> j
          \<and> xs ! i = Str active \<and> xs ! j = Str over_id
          \<and> mset ys = mset xs \<and> length ys = length xs
          \<and> ys ! j = xs ! i
          \<and> take j ys @ drop (Suc j) ys = take i xs @ drop (Suc i) xs"
    apply (rule exI[of _ h'], rule exI[of _ "Ref (length h3)"], rule exI[of _ ys],
        rule exI[of _ i], rule exI[of _ j])
    using run new ys old i j ij m by (simp add: i_def j_def)
next
  assume "over = None \<or> over = Some active \<or> Str active \<notin> set xs
            \<or> (\<exists>k. over = Some k \<and> Str k \<notin> set xs)"
  then show "handleDragEnd h dflt data active over = (h, None)"
    by (rule handleDragEnd_unmoved[OF assms])
qed

lemma example_order:
  "elems_of example_store (AdditionalForm_order example_store 0 (Ref 2)) =
     [Str ''technicalSkills'', Str ''languages'', Str ''certificationsTraining'', Str ''awards'',
      Str ''creativeTools'']"
  by code_simp

lemma example_drag:
  "handleDragEnd example_store 0 (Ref 2) ''awards'' (Some ''languages'') =
    (example_store @
      [Arr [Str ''technicalSkills'', Str ''awards'', Str ''languages'',
            Str ''certificationsTraining'', Str ''creativeTools''],
       Obj [(''technicalSkills'', Ref 1), (''skillsColumnGapRem'', Num (Fin 1)),
            (''additionalSectionOrder'', Ref 4)]],
     Some (Ref 5))"
  by code_simp

theorem drag_end_relocates_witness:
  "elems_of example_store (AdditionalForm_order example_store 0 (Ref 2)) =
     [Str ''technicalSkills'', Str ''languages'', Str ''certificationsTraining'', Str ''awards'',
      Str ''creativeTools'']
   \<and> ''awards'' \<noteq> ''languages''
   \<and> Str ''awards'' \<in> set (elems_of example_store (AdditionalForm_order example_store 0 (Ref 2)))
   \<and> Str ''languages'' \<in> set (elems_of example_store (AdditionalForm_order example_store 0 (Ref 2)))
   \<and> handleDragEnd example_store 0 (Ref 2) ''awards'' (Some ''languages'') =
       (example_store @
         [Arr [Str ''technicalSkills'', Str ''awards'', Str ''languages'',
               Str ''certificationsTraining'', Str ''creativeTools''],
          Obj [(''technicalSkills'', Ref 1), (''skillsColumnGapRem'', Num (Fin 1)),
               (''additionalSectionOrder'', Ref 4)]],
        Some (Ref 5))
   \<and> (\<exists>h' new ys.
         handleDragEnd example_store 0 (Ref 2) ''awards'' (Some ''languages'') = (h', Some new)
         \<and> elems_of h' (get_prop h' new ''additionalSectionOrder'') = ys
         \<and> mset ys = mset (elems_of example_store (AdditionalForm_order example_store 0 (Ref 2)))
         \<and> ys ! 1 = Str ''awards'')
   \<and> handleDragEnd example_store 0 (Ref 2) ''awards'' None = (example_store, None)
   \<and> handleDragEnd example_store 0 (Ref 2) ''awards'' (Some ''awards'') = (example_store, None)
   \<and> Str ''hobbies'' \<notin> set (elems_of example_store (AdditionalForm_order example_store 0 (Ref 2)))
   \<and> handleDragEnd example_store 0 (Ref 2) ''awards'' (Some ''hobbies'') = (example_store, None)"
proof -
  let ?xs = "elems_of example_store (AdditionalForm_order example_store 0 (Ref 2))"
  let ?L = "[Str ''technicalSkills'', Str ''languages'', Str ''certificationsTraining'',
             Str ''awards'', Str ''creativeTools'']"
  note moved = drag_end_relocates [OF example_order, THEN conjunct1, rule_format]
  note unchanged = drag_end_relocates [OF example_order, THEN conjunct2, rule_format]
  have absent: "Str ''hobbies'' \<notin> set ?xs"
    by (simp add: example_order)
  have present: "Str ''awards'' \<in> set ?xs" "Str ''languages'' \<in> set ?xs"
    by (simp_all add: example_order)
  have 1: "handleDragEnd example_store 0 (Ref 2) ''awards'' None = (example_store, None)"
    by (rule unchanged) simp
  have 2: "handleDragEnd example_store 0 (Ref 2) ''awards'' (Some ''awards'') = (example_store, None)"
    by (rule unchanged) simp
  have 3: "handleDragEnd example_store 0 (Ref 2) ''awards'' (Some ''hobbies'') = (example_store, None)"
    by (rule unchanged) simp
  have 4: "''awards'' \<noteq> ''languages''"
    by simp
  have ij: "nat (indexOf ?L (Str ''awards'')) = 3" "nat (indexOf ?L (Str ''languages'')) = 1"
    by simp_all
  have m: "Some ''languages'' = Some ''languages'' \<and> ''awards'' \<noteq> ''languages''
      \<and> Str ''awards'' \<in> set ?L \<and> Str ''languages'' \<in> set ?L"
    by simp
  obtain h' new ys i j where r:
      "handleDragEnd example_store 0 (Ref 2) ''awards'' (Some ''languages'') = (h', Some new)"
      "elems_of h' (get_prop h' new ''additionalSectionOrder'') = ys"
      "i = nat (indexOf ?L (Str ''awards''))" "j = nat (indexOf ?L (Str ''languages''))"
      "?L ! i = Str ''awards''" "mset ys = mset ?L" "ys ! j = ?L ! i"
    using moved [OF m] by blast
  have "ys ! 1 = Str ''awards''"
    using r(3,4,5,7) ij by simp
  then have 5: "\<exists>h' new ys.
         handleDragEnd example_store 0 (Ref 2) ''awards'' (Some ''languages'') = (h', Some new)
         \<and> elems_of h' (get_prop h' new ''additionalSectionOrder'') = ys
         \<and> mset ys = mset ?xs \<and> ys ! 1 = Str ''awards''"
    using r(1,2,6) unfolding example_order by blast
  show ?thesis
    by (intro conjI example_order 4 present example_drag 5 1 2 3 absent)
qed

subsection \<open>Whole-object replacement\<close>

lemma handlers_call_onChange:
  "snd (handleArrayChange h data field v) \<noteq> None"
  "snd (handleSubsectionLabelChange h data k label_v) \<noteq> None"
  "snd (handleColumnRatioChange h data n) \<noteq> None"
  "snd (handleColumnGapChange h data n) \<noteq> None"
  "snd (handleChange h data field v) \<noteq> None"
  by (simp_all add: handleArrayChange_def handleSubsectionLabelChange_eq handleColumnRatioChange_def
      handleColumnGapChange_def handleChange_def alloc_def Let_def)

text \<open>
  C9. Every edit handler of the two forms leaves every object and array of the store as it
  found it, and what it passes to \<open>onChange\<close> is an object it has allocated, on which every
  property but the edited one reads as on \<open>data\<close>. All handlers but \<open>handleDragEnd\<close> always
  call \<open>onChange\<close>.
\<close>

theorem handlers_replace_whole_object:
  assumes "data = Ref a" and "a < length h"
  shows "replaces_whole_object h data field (handleArrayChange h data field v)
       \<and> snd (handleArrayChange h data field v) \<noteq> None
       \<and> replaces_whole_object h data ''additionalSubsectionLabels''
            (handleSubsectionLabelChange h data k label_v)
       \<and> snd (handleSubsectionLabelChange h data k label_v) \<noteq> None
       \<and> replaces_whole_object h data ''additionalSectionOrder''
            (handleDragEnd h dflt data active over)
       \<and> replaces_whole_object h data ''skillsLeftColumnRatio'' (handleColumnRatioChange h data n)
       \<and> snd (handleColumnRatioChange h data n) \<noteq> None
       \<and> replaces_whole_object h data ''skillsColumnGapRem'' (handleColumnGapChange h data n)
       \<and> snd (handleColumnGapChange h data n) \<noteq> None
       \<and> replaces_whole_object h data field (handleChange h data field v)
       \<and> snd (handleChange h data field v) \<noteq> None"
  unfolding assms(1)
  by (intro conjI handleArrayChange_frame[OF assms(2)] handleSubsectionLabelChange_frame[OF assms(2)]
    handleDragEnd_frame[OF assms(2)] handleColumnRatioChange_frame[OF assms(2)]
    handleColumnGapChange_frame[OF assms(2)] handleChange_frame[OF assms(2)]
    handlers_call_onChange)

lemma example_handlers:
  "handleArrayChange example_store (Ref 2) ''languages''
      (''English'' @ [CHR 0x0A] @ '' '' @ [CHR 0x0A] @ ''French'') =
    (example_store @
      [Arr [Str ''English'', Str ''French''],
       Obj [(''technicalSkills'', Ref 1), (''skillsColumnGapRem'', Num (Fin 1)),
            (''languages'', Ref 4)]],
     Some (Ref 5))"
  "handleChange example_store (Ref 3) ''name'' ''Grace'' =
    (example_store @ [Obj [(''name'', Str ''Grace''), (''email'', Str ''ada@example.org'')]],
     Some (Ref 4))"
  "get_prop example_store (Ref 3) ''email'' = Str ''ada@example.org''"
  by code_simp+

theorem handlers_replace_whole_object_witness:
  "Ref 2 = Ref 2 \<and> 2 < length example_store \<and> 3 < length example_store
   \<and> handleChange example_store (Ref 3) ''name'' ''Grace'' =
       (example_store @ [Obj [(''name'', Str ''Grace''), (''email'', Str ''ada@example.org'')]],
        Some (Ref 4))
   \<and> replaces_whole_object example_store (Ref 3) ''name''
        (example_store @ [Obj [(''name'', Str ''Grace''), (''email'', Str ''ada@example.org'')]],
         Some (Ref 4))
   \<and> get_prop example_store (Ref 3) ''email'' = Str ''ada@example.org''
   \<and> replaces_whole_object example_store (Ref 2) ''languages''
        (handleArrayChange example_store (Ref 2) ''languages''
           (''English'' @ [CHR 0x0A] @ '' '' @ [CHR 0x0A] @ ''French''))
   \<and> handleArrayChange example_store (Ref 2) ''languages''
        (''English'' @ [CHR 0x0A] @ '' '' @ [CHR 0x0A] @ ''French'') =
       (example_store @
         [Arr [Str ''English'', Str ''French''],
          Obj [(''technicalSkills'', Ref 1), (''skillsColumnGapRem'', Num (Fin 1)),
               (''languages'', Ref 4)]],
        Some (Ref 5))"
proof -
  have l: "2 < length example_store" "3 < length example_store"
    by (simp_all add: example_store_def)
  note p = handlers_replace_whole_object [OF refl l(2), of "''name''" "''Grace''"]
  note a = handlers_replace_whole_object [OF refl l(1), of "''languages''"
      "''English'' @ [CHR 0x0A] @ '' '' @ [CHR 0x0A] @ ''French''"]
  have 1: "replaces_whole_object example_store (Ref 3) ''name''
        (example_store @ [Obj [(''name'', Str ''Grace''), (''email'', Str ''ada@example.org'')]],
         Some (Ref 4))"
    using p example_handlers(2) by simp
  have 2: "replaces_whole_object example_store (Ref 2) ''languages''
        (handleArrayChange example_store (Ref 2) ''languages''
           (''English'' @ [CHR 0x0A] @ '' '' @ [CHR 0x0A] @ ''French''))"
    using a by blast
  show ?thesis
    using l 1 2 example_handlers by blast
qed

end
